theory Spec2Isabelle
  imports Main "HOL-Library.Word"
begin

section \<open>JavaScript values used by the commit linter\<close>

text \<open>
  A JavaScript string is a sequence of 16-bit code units. The linter of
  \<^verbatim>\<open>dangerfile.js\<close> looks at single code units only (regular expressions without
  the \<^verbatim>\<open>u\<close> flag, \<^verbatim>\<open>split('\n')\<close>), so a string is a list of 16-bit words.
\<close>

type_synonym jchar = "16 word"
type_synonym jstring = "jchar list"

definition code_unit :: "char \<Rightarrow> jchar" where
  "code_unit c = of_nat (of_char c)"

text \<open>An ASCII literal of the source, as code units.\<close>

definition js :: "string \<Rightarrow> jstring" where
  "js s = map code_unit s"

text \<open>
  The fields of a commit object are read from the review bot's data: a string, or one of
  the two absent values.
\<close>

datatype jsval = Undefined | Null | Str jstring

text \<open>\<^verbatim>\<open>!v\<close> is false exactly for the truthy values; of these three kinds of value the
  falsy ones are \<^verbatim>\<open>undefined\<close>, \<^verbatim>\<open>null\<close> and the empty string.\<close>

fun truthy :: "jsval \<Rightarrow> bool" where
  "truthy Undefined = False"
| "truthy Null = False"
| "truthy (Str s) = (s \<noteq> [])"

text \<open>String conversion inside a template literal \<^verbatim>\<open>`${v}`\<close>.\<close>

fun toString :: "jsval \<Rightarrow> jstring" where
  "toString Undefined = js ''undefined''"
| "toString Null = js ''null''"
| "toString (Str s) = s"

text \<open>
  \<^verbatim>\<open>{ sha: obj.sha, msg: obj.commit.message }\<close>. The record is extensible: an object
  may carry further properties, which \<^verbatim>\<open>const { msg, sha } = commit\<close> does not read.
\<close>

record commit =
  sha :: jsval
  msg :: jsval

section \<open>Regular expressions\<close>

text \<open>
  The fragment of the regular expression syntax that the two patterns of
  \<^verbatim>\<open>commitLint\<close> use. Neither pattern has a flag, so \<^verbatim>\<open>.\<close> excludes the four line
  terminators, \<^verbatim>\<open>\W\<close> is the complement of the ASCII word characters, \<^verbatim>\<open>^\<close> is the
  start of the input, and \<^verbatim>\<open>test\<close> keeps no \<^verbatim>\<open>lastIndex\<close> between calls. Groups
  only capture, which \<^verbatim>\<open>test\<close> ignores.
\<close>

definition LF :: jchar where "LF = 0x0A"

definition lineTerminator :: "jchar \<Rightarrow> bool" where
  "lineTerminator c = (c = 0x0A \<or> c = 0x0D \<or> c = 0x2028 \<or> c = 0x2029)"

text \<open>\<^verbatim>\<open>\w\<close>: \<^verbatim>\<open>[A-Za-z0-9_]\<close>.\<close>

definition wordChar :: "jchar \<Rightarrow> bool" where
  "wordChar c =
     ((code_unit CHR ''a'' \<le> c \<and> c \<le> code_unit CHR ''z'') \<or>
      (code_unit CHR ''A'' \<le> c \<and> c \<le> code_unit CHR ''Z'') \<or>
      (code_unit CHR ''0'' \<le> c \<and> c \<le> code_unit CHR ''9'') \<or>
      c = code_unit CHR ''_'')"

text \<open>The members of a character class: a single character or the escape \<^verbatim>\<open>\W\<close>.\<close>

datatype classItem = Single jchar | NonWord

fun inItem :: "classItem \<Rightarrow> jchar \<Rightarrow> bool" where
  "inItem (Single d) c = (c = d)"
| "inItem NonWord c = (\<not> wordChar c)"

text \<open>Atoms match exactly one code unit: \<^verbatim>\<open>.\<close> and a negated class \<^verbatim>\<open>[^...]\<close>.\<close>

datatype atom = Dot | NoneOf "classItem list"

fun atomMatches :: "atom \<Rightarrow> jchar \<Rightarrow> bool" where
  "atomMatches Dot c = (\<not> lineTerminator c)"
| "atomMatches (NoneOf items) c = (\<not> list_ex (\<lambda>i. inItem i c) items)"

datatype rx =
    Chars jstring  \<comment> \<open>a run of literal characters\<close>
  | Many1 atom     \<comment> \<open>\<^verbatim>\<open>a{1,}\<close>\<close>
  | Seq rx rx
  | Alt rx rx
  | Opt rx         \<comment> \<open>\<^verbatim>\<open>(r)?\<close>\<close>

text \<open>
  Backtracking is a list of alternatives: \<open>rxMatch r s\<close> lists, in the order in which
  the matcher tries them, the rest of \<open>s\<close> after every way of matching \<open>r\<close> at the
  start of \<open>s\<close>.
\<close>

fun many1 :: "atom \<Rightarrow> jstring \<Rightarrow> jstring list" where
  "many1 a [] = []"
| "many1 a (c # cs) = (if atomMatches a c then many1 a cs @ [cs] else [])"

fun rxMatch :: "rx \<Rightarrow> jstring \<Rightarrow> jstring list" where
  "rxMatch (Chars l) s = (if take (length l) s = l then [drop (length l) s] else [])"
| "rxMatch (Many1 a) s = many1 a s"
| "rxMatch (Seq r1 r2) s = concat (map (rxMatch r2) (rxMatch r1 s))"
| "rxMatch (Alt r1 r2) s = rxMatch r1 s @ rxMatch r2 s"
| "rxMatch (Opt r) s = rxMatch r s @ [s]"

text \<open>Without \<^verbatim>\<open>^\<close> the matcher is tried at every position of the input.\<close>

fun rxSearch :: "rx \<Rightarrow> jstring \<Rightarrow> bool" where
  "rxSearch r [] = (rxMatch r [] \<noteq> [])"
| "rxSearch r (c # cs) = (rxMatch r (c # cs) \<noteq> [] \<or> rxSearch r cs)"

record regexp =
  caret :: bool  \<comment> \<open>the pattern starts with \<^verbatim>\<open>^\<close>\<close>
  pattern :: rx

definition test :: "regexp \<Rightarrow> jstring \<Rightarrow> bool" where
  "test re s = (if caret re then rxMatch (pattern re) s \<noteq> [] else rxSearch (pattern re) s)"

section \<open>The commit linter\<close>

text \<open>\<^verbatim>\<open>s.split('\n')\<close>: the pieces between the line feeds, at least one piece.\<close>

fun split :: "jchar \<Rightarrow> jstring \<Rightarrow> jstring list" where
  "split d [] = [[]]"
| "split d (c # cs) =
     (if c = d then [] # split d cs
      else (case split d cs of [] \<Rightarrow> [[c]] | l # ls \<Rightarrow> (c # l) # ls))"

text \<open>\<^verbatim>\<open>/^(feat|fix|docs|style|refactor|perf|test|build|ci|chore|revert)(\(.{1,}\))?: (.{1,})/\<close>\<close>

definition headerRegex :: regexp where
  "headerRegex = \<lparr> caret = True, pattern =
     Seq (Alt (Chars (js ''feat'')) (Alt (Chars (js ''fix'')) (Alt (Chars (js ''docs''))
         (Alt (Chars (js ''style'')) (Alt (Chars (js ''refactor'')) (Alt (Chars (js ''perf''))
         (Alt (Chars (js ''test'')) (Alt (Chars (js ''build'')) (Alt (Chars (js ''ci''))
         (Alt (Chars (js ''chore'')) (Chars (js ''revert''))))))))))))
    (Seq (Opt (Seq (Chars (js ''('')) (Seq (Many1 Dot) (Chars (js '')'')))))
    (Seq (Chars (js '': ''))
         (Many1 Dot))) \<rparr>"

text \<open>\<^verbatim>\<open>/([^\W\_]){1,}/\<close>\<close>

definition hasTextRegex :: regexp where
  "hasTextRegex = \<lparr> caret = False,
     pattern = Many1 (NoneOf [NonWord, Single (code_unit CHR ''_'')]) \<rparr>"

definition commitIdentificator :: "jsval \<Rightarrow> jstring" where
  "commitIdentificator s = js ''Commit '' @ toString s"

definition errorMessage :: "jsval \<Rightarrow> jstring" where
  "errorMessage s =
     commitIdentificator s @ js '' message does not comply with'' @
     js '' the conventional-changelog-standard conventions.''"

text \<open>
  The result is \<open>None\<close> for \<^verbatim>\<open>undefined\<close> (the message complies) and \<open>Some\<close> of the
  error string otherwise. The message is a string wherever the regular expressions and
  \<^verbatim>\<open>split\<close> are reached, since the first test returns for every falsy value.
\<close>

definition commitLint :: "'a commit_scheme \<Rightarrow> jstring option" where
  "commitLint commit =
     (case msg commit of
        Undefined \<Rightarrow> Some (commitIdentificator (sha commit) @ js '' has no commit message'')
      | Null \<Rightarrow> Some (commitIdentificator (sha commit) @ js '' has no commit message'')
      | Str m \<Rightarrow>
          if \<not> truthy (Str m) then
            Some (commitIdentificator (sha commit) @ js '' has no commit message'')
          else if \<not> test headerRegex m then
            Some (errorMessage (sha commit) @
              js '' Line #1 should be `<type>(<scope>): <subject>` or '' @
              js ''`<type>: <subject>`.'')
          else
            let msgLines = split LF m in
            if length msgLines > 1 \<and> msgLines ! 1 \<noteq> [] then
              Some (errorMessage (sha commit) @ js '' Line #2 should be `<blank line>`.'')
            else if length msgLines > 2 \<and> \<not> test hasTextRegex (msgLines ! 2) then
              Some (errorMessage (sha commit) @ js '' Line #3 should be `<body>` (with text).'')
            else if length msgLines > 3 \<and> msgLines ! 3 \<noteq> [] then
              Some (errorMessage (sha commit) @ js '' Line #4 should be `<blank line>`.'')
            else if length msgLines > 4 \<and> \<not> test hasTextRegex (msgLines ! 4) then
              Some (errorMessage (sha commit) @ js '' Line #3 should be `<footer>` with text.'')
            else None)"

section \<open>Reporting the commit errors\<close>

text \<open>
  \<^verbatim>\<open>fail\<close> belongs to the review bot. Its effect is the list of failures handed to
  the bot so far, in the order of the calls.
\<close>

definition fail :: "jstring \<Rightarrow> jstring list \<Rightarrow> jstring list" where
  "fail message failures = failures @ [message]"

text \<open>
  \<^verbatim>\<open>commits.map(commitLint)\<close>: \<^verbatim>\<open>map\<close> also passes the index and the array, which
  \<^verbatim>\<open>commitLint\<close>, a function of one parameter, does not receive.
\<close>

definition commitErrors :: "'a commit_scheme list \<Rightarrow> jstring option list" where
  "commitErrors commits = map commitLint commits"

text \<open>
  \<^verbatim>\<open>if (commitErrors.some(e => e !== undefined)) commitErrors.forEach(error => ...)\<close>,
  from the failures reported before it to the failures reported after it.
\<close>

definition reportCommitErrors :: "'a commit_scheme list \<Rightarrow> jstring list \<Rightarrow> jstring list" where
  "reportCommitErrors commits failures =
     (if list_ex (\<lambda>e. e \<noteq> None) (commitErrors commits) then
        fold (\<lambda>error fs. case error of None \<Rightarrow> fs | Some e \<Rightarrow> fail e fs)
          (commitErrors commits) failures
      else failures)"

section \<open>The vocabulary of the specification\<close>

text \<open>The fixed set of type tags, in the order of the alternatives of \<open>headerRegex\<close>.\<close>

definition typeTags :: "string list" where
  "typeTags = [''feat'', ''fix'', ''docs'', ''style'', ''refactor'', ''perf'', ''test'',
     ''build'', ''ci'', ''chore'', ''revert'']"

text \<open>An ASCII letter or digit.\<close>

definition alphanumeric :: "jchar \<Rightarrow> bool" where
  "alphanumeric c =
     ((code_unit CHR ''a'' \<le> c \<and> c \<le> code_unit CHR ''z'') \<or>
      (code_unit CHR ''A'' \<le> c \<and> c \<le> code_unit CHR ''Z'') \<or>
      (code_unit CHR ''0'' \<le> c \<and> c \<le> code_unit CHR ''9''))"

text \<open>The subject of a header: \<^verbatim>\<open>: \<close> and at least one character that \<^verbatim>\<open>.\<close> matches.\<close>

definition subjectAt :: "jstring \<Rightarrow> bool" where
  "subjectAt r = (\<exists>x. r = js '': '' @ x \<and> x \<noteq> [] \<and> \<not> lineTerminator (hd x))"

text \<open>
  The leading type tag of a message: what stands before its first opening parenthesis or
  colon.
\<close>

definition leadingTag :: "jstring \<Rightarrow> jstring" where
  "leadingTag m =
     takeWhile (\<lambda>c. c \<noteq> code_unit CHR ''('' \<and> c \<noteq> code_unit CHR '':'') m"

text \<open>
  The specification's reading of \<open>commitLint\<close>: an ordered list of checks, each a
  test for a violation paired with the error it gives. The first check is on the message
  value; the other five are on the text of the message, which an absent message does not
  have.
\<close>

definition violates :: "(jstring \<Rightarrow> bool) \<Rightarrow> jsval \<Rightarrow> bool" where
  "violates p v = (case v of Str m \<Rightarrow> p m | _ \<Rightarrow> False)"

definition checks :: "((jsval \<Rightarrow> bool) \<times> (jsval \<Rightarrow> jstring)) list" where
  "checks =
     [(\<lambda>v. \<not> truthy v,
       \<lambda>s. commitIdentificator s @ js '' has no commit message''),
      (violates (\<lambda>m. \<not> test headerRegex m),
       \<lambda>s. errorMessage s @ js '' Line #1 should be `<type>(<scope>): <subject>` or '' @
         js ''`<type>: <subject>`.''),
      (violates (\<lambda>m. length (split LF m) > 1 \<and> split LF m ! 1 \<noteq> []),
       \<lambda>s. errorMessage s @ js '' Line #2 should be `<blank line>`.''),
      (violates (\<lambda>m. length (split LF m) > 2 \<and> \<not> test hasTextRegex (split LF m ! 2)),
       \<lambda>s. errorMessage s @ js '' Line #3 should be `<body>` (with text).''),
      (violates (\<lambda>m. length (split LF m) > 3 \<and> split LF m ! 3 \<noteq> []),
       \<lambda>s. errorMessage s @ js '' Line #4 should be `<blank line>`.''),
      (violates (\<lambda>m. length (split LF m) > 4 \<and> \<not> test hasTextRegex (split LF m ! 4)),
       \<lambda>s. errorMessage s @ js '' Line #3 should be `<footer>` with text.'')]"

section \<open>What the matcher computes\<close>

lemma many1_nonempty: "many1 a s \<noteq> [] \<longleftrightarrow> (s \<noteq> [] \<and> atomMatches a (hd s))"
  by (cases s) simp_all

lemma set_many1:
  "set (many1 a s) = {r. \<exists>u. u \<noteq> [] \<and> s = u @ r \<and> (\<forall>c\<in>set u. atomMatches a c)}"
proof (induction s)
  case Nil
  then show ?case by simp
next
  case (Cons c cs)
  show ?case
  proof (cases "atomMatches a c")
    case False
    have "\<And>u r. u \<noteq> [] \<Longrightarrow> c # cs = u @ r \<Longrightarrow> \<not> (\<forall>x\<in>set u. atomMatches a x)"
      using False by (case_tac u) auto
    with False show ?thesis by auto
  next
    case True
    show ?thesis
    proof (rule set_eqI)
      fix r
      have "r \<in> set (many1 a (c # cs)) \<longleftrightarrow> r = cs \<or> r \<in> set (many1 a cs)"
        using True by auto
      also have "\<dots> \<longleftrightarrow> r = cs \<or> (\<exists>u. u \<noteq> [] \<and> cs = u @ r \<and> (\<forall>x\<in>set u. atomMatches a x))"
        using Cons.IH by simp
      also have "\<dots> \<longleftrightarrow> (\<exists>v. v \<noteq> [] \<and> c # cs = v @ r \<and> (\<forall>x\<in>set v. atomMatches a x))"
      proof
        assume "r = cs \<or> (\<exists>u. u \<noteq> [] \<and> cs = u @ r \<and> (\<forall>x\<in>set u. atomMatches a x))"
        then show "\<exists>v. v \<noteq> [] \<and> c # cs = v @ r \<and> (\<forall>x\<in>set v. atomMatches a x)"
        proof
          assume "r = cs"
          then have "[c] \<noteq> [] \<and> c # cs = [c] @ r \<and> (\<forall>x\<in>set [c]. atomMatches a x)"
            using True by simp
          then show ?thesis by blast
        next
          assume "\<exists>u. u \<noteq> [] \<and> cs = u @ r \<and> (\<forall>x\<in>set u. atomMatches a x)"
          then obtain u where "u \<noteq> []" "cs = u @ r" "\<forall>x\<in>set u. atomMatches a x" by blast
          then have "c # u \<noteq> [] \<and> c # cs = (c # u) @ r \<and> (\<forall>x\<in>set (c # u). atomMatches a x)"
            using True by simp
          then show ?thesis by blast
        qed
      next
        assume "\<exists>v. v \<noteq> [] \<and> c # cs = v @ r \<and> (\<forall>x\<in>set v. atomMatches a x)"
        then obtain v where v: "v \<noteq> []" "c # cs = v @ r" "\<forall>x\<in>set v. atomMatches a x" by blast
        then obtain u where u: "v = c # u" "cs = u @ r" by (cases v) auto
        show "r = cs \<or> (\<exists>u. u \<noteq> [] \<and> cs = u @ r \<and> (\<forall>x\<in>set u. atomMatches a x))"
        proof (cases "u = []")
          case True
          with u show ?thesis by simp
        next
          case False
          with u v show ?thesis by auto
        qed
      qed
      finally show "r \<in> set (many1 a (c # cs)) \<longleftrightarrow>
        r \<in> {r. \<exists>u. u \<noteq> [] \<and> c # cs = u @ r \<and> (\<forall>c\<in>set u. atomMatches a c)}"
        by simp
    qed
  qed
qed

lemma take_prefix: "take (length l) s = l \<longleftrightarrow> (\<exists>r. s = l @ r)"
  by (metis append_eq_conv_conj append_take_drop_id)

lemma set_Chars: "set (rxMatch (Chars l) s) = {r. s = l @ r}"
  by (auto simp: take_prefix)

lemma Chars_nonempty: "rxMatch (Chars l) s \<noteq> [] \<longleftrightarrow> (\<exists>r. s = l @ r)"
  by (simp add: take_prefix)

lemma Seq_nonempty:
  "rxMatch (Seq r1 r2) s \<noteq> [] \<longleftrightarrow> (\<exists>t\<in>set (rxMatch r1 s). rxMatch r2 t \<noteq> [])"
  by (auto simp: concat_eq_Nil_conv)

lemma set_Seq: "set (rxMatch (Seq r1 r2) s) = (\<Union>t\<in>set (rxMatch r1 s). set (rxMatch r2 t))"
  by simp

lemma alphanumeric_iff: "atomMatches (NoneOf [NonWord, Single (code_unit CHR ''_'')]) c \<longleftrightarrow> alphanumeric c"
  by (auto simp: alphanumeric_def wordChar_def code_unit_def)

lemma rxSearch_Many1: "rxSearch (Many1 a) s \<longleftrightarrow> (\<exists>c\<in>set s. atomMatches a c)"
  by (induction s) auto

lemma hasTextRegex_iff: "test hasTextRegex s \<longleftrightarrow> (\<exists>c\<in>set s. alphanumeric c)"
  using alphanumeric_iff by (simp add: test_def hasTextRegex_def rxSearch_Many1)

lemma set_Alt: "set (rxMatch (Alt a b) s) = set (rxMatch a s) \<union> set (rxMatch b s)"
  by simp

lemma set_Opt: "set (rxMatch (Opt a) s) = insert s (set (rxMatch a s))"
  by simp

lemma set_Many1:
  "set (rxMatch (Many1 a) s) = {r. \<exists>u. u \<noteq> [] \<and> s = u @ r \<and> (\<forall>c\<in>set u. atomMatches a c)}"
  by (simp add: set_many1)

lemmas rx_sets = set_Chars set_Alt set_Opt set_Seq set_Many1

lemma test_caret: "test \<lparr>caret = True, pattern = p\<rparr> m \<longleftrightarrow> set (rxMatch p m) \<noteq> {}"
  by (simp add: test_def)

lemma subject_part:
  "set (rxMatch (Seq (Chars (js '': '')) (Many1 Dot)) r) \<noteq> {} \<longleftrightarrow> subjectAt r"
proof -
  have "set (rxMatch (Seq (Chars (js '': '')) (Many1 Dot)) r) \<noteq> {} \<longleftrightarrow>
        (\<exists>x\<in>set (rxMatch (Chars (js '': '')) r). many1 Dot x \<noteq> [])"
    by (simp del: rxMatch.simps(1))
  also have "\<dots> \<longleftrightarrow> subjectAt r"
    unfolding set_Chars many1_nonempty subjectAt_def by auto
  finally show ?thesis .
qed

lemma tags_part:
  "set (rxMatch (Alt (Chars (js ''feat'')) (Alt (Chars (js ''fix'')) (Alt (Chars (js ''docs''))
         (Alt (Chars (js ''style'')) (Alt (Chars (js ''refactor'')) (Alt (Chars (js ''perf''))
         (Alt (Chars (js ''test'')) (Alt (Chars (js ''build'')) (Alt (Chars (js ''ci''))
         (Alt (Chars (js ''chore'')) (Chars (js ''revert''))))))))))))  m) =
   {r. \<exists>t\<in>set typeTags. m = js t @ r}"
  unfolding rx_sets typeTags_def by auto

lemma scope_part:
  "set (rxMatch (Opt (Seq (Chars (js ''('')) (Seq (Many1 Dot) (Chars (js '')''))))) r) =
   insert r {r'. \<exists>sc. sc \<noteq> [] \<and> r = js ''('' @ sc @ js '')'' @ r' \<and> (\<forall>c\<in>set sc. \<not> lineTerminator c)}"
  unfolding rx_sets by auto

lemma Seq3_nonempty:
  "set (rxMatch (Seq a (Seq b c)) m) \<noteq> {} \<longleftrightarrow>
     (\<exists>t\<in>set (rxMatch a m). \<exists>t2\<in>set (rxMatch b t). set (rxMatch c t2) \<noteq> {})"
  by auto

lemma headerRegex_iff:
  "test headerRegex m \<longleftrightarrow>
     (\<exists>t\<in>set typeTags. \<exists>r. m = js t @ r \<and>
        (subjectAt r \<or>
         (\<exists>sc r'. sc \<noteq> [] \<and> r = js ''('' @ sc @ js '')'' @ r' \<and>
            (\<forall>c\<in>set sc. \<not> lineTerminator c) \<and> subjectAt r')))"
  unfolding headerRegex_def test_caret Seq3_nonempty tags_part scope_part subject_part
  by auto

section \<open>Helper facts about the linter\<close>

lemmas eval_defs = js_def code_unit_def test_def headerRegex_def hasTextRegex_def
  LF_def lineTerminator_def wordChar_def

lemma headerRegex_Nil: "\<not> test headerRegex []"
  by (simp add: headerRegex_iff typeTags_def subjectAt_def js_def)

lemma headerRegex_nonempty: "test headerRegex m \<Longrightarrow> m \<noteq> []"
  using headerRegex_Nil by auto

text \<open>After the first two tests, the linter is a cascade over the lines.\<close>

lemma commitLint_Str:
  "msg c = Str m \<Longrightarrow> test headerRegex m \<Longrightarrow>
   commitLint c =
     (let msgLines = split LF m in
      if length msgLines > 1 \<and> msgLines ! 1 \<noteq> [] then
        Some (errorMessage (sha c) @ js '' Line #2 should be `<blank line>`.'')
      else if length msgLines > 2 \<and> \<not> test hasTextRegex (msgLines ! 2) then
        Some (errorMessage (sha c) @ js '' Line #3 should be `<body>` (with text).'')
      else if length msgLines > 3 \<and> msgLines ! 3 \<noteq> [] then
        Some (errorMessage (sha c) @ js '' Line #4 should be `<blank line>`.'')
      else if length msgLines > 4 \<and> \<not> test hasTextRegex (msgLines ! 4) then
        Some (errorMessage (sha c) @ js '' Line #3 should be `<footer>` with text.'')
      else None)"
  by (simp add: commitLint_def headerRegex_nonempty)

text \<open>The linter is the first violated check of the list, if there is one.\<close>

lemma commitLint_find:
  "commitLint c = map_option (\<lambda>ch. snd ch (sha c)) (find (\<lambda>ch. fst ch (msg c)) checks)"
  by (cases "msg c") (simp_all add: commitLint_def checks_def violates_def Let_def)

lemma find_first:
  "i < length xs \<Longrightarrow> P (xs ! i) \<Longrightarrow> \<forall>k<i. \<not> P (xs ! k) \<Longrightarrow> find P xs = Some (xs ! i)"
  unfolding find_Some_iff by blast

text \<open>For one commit, the six errors are six different strings.\<close>

lemma reasons_distinct_list: "distinct (map (\<lambda>ch. snd ch s) checks)"
  by (simp add: checks_def errorMessage_def commitIdentificator_def js_def code_unit_def)

lemma reasons_distinct:
  assumes "i < j" "j < length checks"
  shows "snd (checks ! i) s \<noteq> snd (checks ! j) s"
  using assms nth_eq_iff_index_eq [OF reasons_distinct_list, of i s j] by simp

lemma body_error_distinct:
  "errorMessage s @ js '' Line #3 should be `<body>` (with text).'' \<noteq>
     errorMessage s @ js '' Line #4 should be `<blank line>`.''"
  "errorMessage s @ js '' Line #3 should be `<body>` (with text).'' \<noteq>
     errorMessage s @ js '' Line #3 should be `<footer>` with text.''"
  by (simp_all add: js_def code_unit_def)

lemma split_no_delim: "d \<notin> set s \<Longrightarrow> split d s = [s]"
  by (induction s) auto

lemma split_first_prefix: "split d s = l # ls \<Longrightarrow> \<exists>r. s = l @ r"
proof (induction s arbitrary: l ls)
  case Nil
  then show ?case by simp
next
  case (Cons c cs)
  then show ?case by (auto split: if_splits list.splits)
qed

text \<open>A header of the conventional form, whatever follows it, passes the header test.\<close>

lemma header_form_passes:
  assumes "t \<in> set typeTags"
    and "scope = [] \<or>
      (scope = js ''('' @ sc @ js '')'' \<and> sc \<noteq> [] \<and> (\<forall>ch\<in>set sc. \<not> lineTerminator ch))"
    and "subject \<noteq> []" and "\<not> lineTerminator (hd subject)"
  shows "test headerRegex (js t @ scope @ js '': '' @ subject @ r)"
proof -
  have s: "subjectAt (js '': '' @ subject @ r)"
    unfolding subjectAt_def using assms(3,4) by auto
  from assms(2) show ?thesis
  proof
    assume "scope = []"
    with s assms(1) show ?thesis unfolding headerRegex_iff by auto
  next
    assume a: "scope = js ''('' @ sc @ js '')'' \<and> sc \<noteq> [] \<and>
      (\<forall>ch\<in>set sc. \<not> lineTerminator ch)"
    then have "js t @ scope @ js '': '' @ subject @ r =
      js t @ js ''('' @ sc @ js '')'' @ js '': '' @ subject @ r" by simp
    with a s assms(1) show ?thesis unfolding headerRegex_iff by blast
  qed
qed

text \<open>A message that passes the header test starts with a tag of the fixed set.\<close>

lemma tag_chars: "t \<in> set typeTags \<Longrightarrow>
   \<forall>ch\<in>set (js t). ch \<noteq> code_unit CHR ''('' \<and> ch \<noteq> code_unit CHR '':''"
  by (auto simp: typeTags_def js_def code_unit_def)

lemma leadingTag_of_header:
  assumes "test headerRegex m"
  shows "leadingTag m \<in> set (map js typeTags)"
proof -
  from assms obtain t r where t: "t \<in> set typeTags" and m: "m = js t @ r"
    and r: "subjectAt r \<or> (\<exists>sc r'. sc \<noteq> [] \<and> r = js ''('' @ sc @ js '')'' @ r' \<and>
            (\<forall>c\<in>set sc. \<not> lineTerminator c) \<and> subjectAt r')"
    unfolding headerRegex_iff by blast
  from r obtain x where "r = code_unit CHR '':'' # x \<or> r = code_unit CHR ''('' # x"
    unfolding subjectAt_def by (auto simp: js_def)
  then have "leadingTag m = js t"
    unfolding leadingTag_def m using tag_chars [OF t]
    by (auto simp: takeWhile_append2 takeWhile_tail)
  with t show ?thesis by auto
qed

text \<open>The failures reported are the errors found, after those reported before.\<close>

lemma fold_report:
  "fold (\<lambda>error fs. case error of None \<Rightarrow> fs | Some e \<Rightarrow> fail e fs) errs failures =
   failures @ map the (filter (\<lambda>e. e \<noteq> None) errs)"
  by (induction errs arbitrary: failures) (auto simp: fail_def)

lemma filter_none: "\<not> list_ex P xs \<Longrightarrow> filter P xs = []"
  by (induction xs) auto

lemma report_eq:
  "reportCommitErrors commits failures =
     failures @ map the (filter (\<lambda>e. e \<noteq> None) (map commitLint commits))"
proof (cases "list_ex (\<lambda>e. e \<noteq> None) (commitErrors commits)")
  case True
  then show ?thesis
    unfolding reportCommitErrors_def by (simp only: if_True fold_report commitErrors_def)
next
  case False
  then have "filter (\<lambda>e. e \<noteq> None) (map commitLint commits) = []"
    unfolding commitErrors_def by (rule filter_none)
  with False show ?thesis
    unfolding reportCommitErrors_def by (simp only: if_False list.map append_Nil2)
qed

section \<open>Properties of the commit linter\<close>

text \<open>
  C1. Take the six checks in their order: no message, header format, line 2 blank,
  line 3 with body text, line 4 blank, footer with text. When a commit violates two of
  them, check \<open>i\<close> and a later check \<open>j\<close>, and no check before \<open>i\<close>, the linter
  returns the error of check \<open>i\<close>, which is not the error of check \<open>j\<close>. The witness
  is a message whose second line is not blank and whose third line is made of spaces: the
  result is the error of line 2.
\<close>

theorem earliest_violation_only:
  assumes "i < j" and "j < length checks"
    and "fst (checks ! i) (msg c)" and "fst (checks ! j) (msg c)"
    and "\<forall>k<i. \<not> fst (checks ! k) (msg c)"
  shows "commitLint c = Some (snd (checks ! i) (sha c)) \<and>
         commitLint c \<noteq> Some (snd (checks ! j) (sha c))"
proof -
  from assms have "i < length checks" by simp
  with assms have "find (\<lambda>ch. fst ch (msg c)) checks = Some (checks ! i)"
    by (intro find_first) simp_all
  then have "commitLint c = Some (snd (checks ! i) (sha c))"
    by (simp add: commitLint_find)
  moreover have "snd (checks ! i) (sha c) \<noteq> snd (checks ! j) (sha c)"
    using assms(1,2) by (rule reasons_distinct)
  ultimately show ?thesis by simp
qed

theorem earliest_violation_only_witness:
  "fst (checks ! 2) (Str (js ''feat: x'' @ LF # js ''foo'' @ LF # js ''   '')) \<and>
   fst (checks ! 3) (Str (js ''feat: x'' @ LF # js ''foo'' @ LF # js ''   '')) \<and>
   commitLint \<lparr>sha = Str (js ''abc''),
       msg = Str (js ''feat: x'' @ LF # js ''foo'' @ LF # js ''   '')\<rparr> =
     Some (errorMessage (Str (js ''abc'')) @ js '' Line #2 should be `<blank line>`.'') \<and>
   commitLint \<lparr>sha = Str (js ''abc''),
       msg = Str (js ''feat: x'' @ LF # js ''foo'' @ LF # js ''   '')\<rparr> \<noteq>
     Some (errorMessage (Str (js ''abc'')) @ js '' Line #3 should be `<body>` (with text).'')"
proof -
  let ?m = "js ''feat: x'' @ LF # js ''foo'' @ LF # js ''   ''"
  let ?c = "\<lparr>sha = Str (js ''abc''), msg = Str ?m\<rparr>"
  have h: "test headerRegex ?m" by (simp add: eval_defs)
  have l: "split LF ?m = [js ''feat: x'', js ''foo'', js ''   '']" by (simp add: eval_defs)
  have t: "\<not> test hasTextRegex (js ''   '')" by (simp add: eval_defs)
  have n: "js ''foo'' \<noteq> []" by (simp add: js_def)
  have v2: "fst (checks ! 2) (msg ?c)" by (simp add: checks_def violates_def l n)
  have v3: "fst (checks ! 3) (msg ?c)" by (simp add: checks_def violates_def l t)
  have e: "\<forall>k<2. \<not> fst (checks ! k) (msg ?c)"
  proof (intro allI impI)
    fix k :: nat assume "k < 2"
    then have "k = 0 \<or> k = 1" by arith
    then show "\<not> fst (checks ! k) (msg ?c)"
      using h n by (auto simp: checks_def violates_def js_def)
  qed
  have lt: "(2::nat) < 3" "3 < length checks" by (simp_all add: checks_def)
  note r = earliest_violation_only [OF lt v2 v3 e]
  have r1: "commitLint ?c =
      Some (errorMessage (Str (js ''abc'')) @ js '' Line #2 should be `<blank line>`.'')"
    using r [THEN conjunct1] by (simp add: checks_def)
  have r2: "commitLint ?c \<noteq>
      Some (errorMessage (Str (js ''abc'')) @ js '' Line #3 should be `<body>` (with text).'')"
    using r [THEN conjunct2] by (simp add: checks_def)
  have w2: "fst (checks ! 2) (Str ?m)" using v2 by simp
  have w3: "fst (checks ! 3) (Str ?m)" using v3 by simp
  show ?thesis by (intro conjI) (fact w2 w3 r1 r2)+
qed

text \<open>
  C2, as the code has it. For a message that passes the header test, has more than two
  lines and an empty second line, the linter returns the error of line 3 exactly when the
  third line contains no ASCII letter and no digit. The underscore is not body text: the
  class \<^verbatim>\<open>[^\W\_]\<close> leaves it out, so a third line made of underscores gets the error
  of line 3, as a third line made of spaces does (the witness).
\<close>

theorem body_text_is_alphanumeric:
  "msg c = Str m \<Longrightarrow> test headerRegex m \<Longrightarrow> length (split LF m) > 2 \<Longrightarrow>
   split LF m ! 1 = [] \<Longrightarrow>
   commitLint c = Some (errorMessage (sha c) @ js '' Line #3 should be `<body>` (with text).'') \<longleftrightarrow>
     \<not> (\<exists>ch\<in>set (split LF m ! 2). alphanumeric ch)"
  using body_error_distinct [of "sha c"]
  by (simp add: commitLint_Str hasTextRegex_iff Let_def del: append_assoc)

theorem body_text_is_alphanumeric_witness:
  "commitLint \<lparr>sha = Str (js ''abc''),
     msg = Str (js ''fix(core): bug'' @ LF # LF # js ''   '' @ LF # LF # js ''footer'')\<rparr> =
   Some (errorMessage (Str (js ''abc'')) @ js '' Line #3 should be `<body>` (with text).'')"
  using body_text_is_alphanumeric [of "\<lparr>sha = Str (js ''abc''),
     msg = Str (js ''fix(core): bug'' @ LF # LF # js ''   '' @ LF # LF # js ''footer'')\<rparr>"
     "js ''fix(core): bug'' @ LF # LF # js ''   '' @ LF # LF # js ''footer''"]
  by (simp add: eval_defs alphanumeric_def)

text \<open>
  The message \<^verbatim>\<open>fix(core): bug\<close>, empty line, \<^verbatim>\<open>___\<close> has three lines, passes the
  header test and has an empty second line; its third line is made of word characters
  (alphanumeric or underscore); and still the linter returns the error of line 3.
\<close>

theorem underscore_body_counterexample:
  "length (split LF (js ''fix(core): bug'' @ LF # LF # js ''___'')) > 2 \<and>
   test headerRegex (js ''fix(core): bug'' @ LF # LF # js ''___'') \<and>
   split LF (js ''fix(core): bug'' @ LF # LF # js ''___'') ! 1 = [] \<and>
   split LF (js ''fix(core): bug'' @ LF # LF # js ''___'') ! 2 = js ''___'' \<and>
   list_all wordChar (js ''___'') \<and>
   commitLint \<lparr>sha = Str (js ''abc''),
       msg = Str (js ''fix(core): bug'' @ LF # LF # js ''___'')\<rparr> =
     Some (errorMessage (Str (js ''abc'')) @ js '' Line #3 should be `<body>` (with text).'')"
  by (simp add: commitLint_def eval_defs)

text \<open>
  C3, as the code has it. A message is valid when its first line is a header
  \<^verbatim>\<open><type>(<scope>): <subject>\<close> or \<^verbatim>\<open><type>: <subject>\<close> with the type among the fixed
  tags, its second line is empty, its third line contains an ASCII letter or a digit,
  its fourth line, if there is one, is empty, and its fifth line, if there is one,
  contains an ASCII letter or a digit. Body text is a letter or a digit: an underscore
  alone is not body text for \<^verbatim>\<open>[^\W\_]\<close>. The characters of the scope and the first
  character of the subject are characters in the sense of \<^verbatim>\<open>.\<close>: any code unit but a
  line terminator. The witness has the message \<^verbatim>\<open>fix(core): bug\<close>, empty line,
  \<^verbatim>\<open>fixes an issue\<close>, and one of five lines.
\<close>

theorem conventional_message_is_valid:
  assumes "msg c = Str m" and "split LF m = header # [] # body # rest"
    and "header = js t @ scope @ js '': '' @ subject"
    and "t \<in> set typeTags"
    and "scope = [] \<or>
      (scope = js ''('' @ sc @ js '')'' \<and> sc \<noteq> [] \<and> (\<forall>ch\<in>set sc. \<not> lineTerminator ch))"
    and "subject \<noteq> []" and "\<not> lineTerminator (hd subject)"
    and "\<exists>ch\<in>set body. alphanumeric ch"
    and "rest \<noteq> [] \<longrightarrow> rest ! 0 = []"
    and "length rest > 1 \<longrightarrow> (\<exists>ch\<in>set (rest ! 1). alphanumeric ch)"
  shows "commitLint c = None"
proof -
  from assms(2) obtain r where "m = header @ r" using split_first_prefix by blast
  then have m: "m = js t @ scope @ js '': '' @ subject @ r" using assms(3) by simp
  have "test headerRegex (js t @ scope @ js '': '' @ subject @ r)"
    using assms(4-7) by (rule header_form_passes)
  then have h: "test headerRegex m" using m by simp
  have l3: "length (split LF m) > 3 \<Longrightarrow> split LF m ! 3 = []"
    using assms(2,9) by (cases rest) simp_all
  have l4: "length (split LF m) > 4 \<Longrightarrow> \<exists>ch\<in>set (split LF m ! 4). alphanumeric ch"
    using assms(2,10) by (simp add: numeral_eq_Suc)
  have l2: "\<exists>ch\<in>set (split LF m ! 2). alphanumeric ch"
    using assms(2,8) by (simp add: numeral_eq_Suc)
  have l1: "split LF m ! 1 = []" using assms(2) by simp
  show ?thesis
    using l1 l2 l3 l4 assms(1) h by (simp add: commitLint_Str hasTextRegex_iff Let_def)
qed

theorem conventional_message_is_valid_witness:
  "commitLint \<lparr>sha = Str (js ''abc''),
     msg = Str (js ''fix(core): bug'' @ LF # LF # js ''fixes an issue'')\<rparr> = None \<and>
   commitLint \<lparr>sha = Str (js ''abc''),
     msg = Str (js ''feat: add x'' @ LF # LF # js ''adds x'' @ LF # LF # js ''closes 12'')\<rparr> = None"
proof
  show "commitLint \<lparr>sha = Str (js ''abc''),
     msg = Str (js ''fix(core): bug'' @ LF # LF # js ''fixes an issue'')\<rparr> = None"
    by (rule conventional_message_is_valid [where t = "''fix''" and scope = "js ''(core)''"
          and sc = "js ''core''" and subject = "js ''bug''" and header = "js ''fix(core): bug''"
          and body = "js ''fixes an issue''" and rest = "[]"
          and m = "js ''fix(core): bug'' @ LF # LF # js ''fixes an issue''"])
      (simp_all add: js_def code_unit_def LF_def lineTerminator_def typeTags_def alphanumeric_def)
  show "commitLint \<lparr>sha = Str (js ''abc''),
     msg = Str (js ''feat: add x'' @ LF # LF # js ''adds x'' @ LF # LF # js ''closes 12'')\<rparr> = None"
    by (rule conventional_message_is_valid [where t = "''feat''" and scope = "[]"
          and subject = "js ''add x''" and header = "js ''feat: add x''"
          and body = "js ''adds x''" and rest = "[[], js ''closes 12'']"
          and m = "js ''feat: add x'' @ LF # LF # js ''adds x'' @ LF # LF # js ''closes 12''"])
      (simp_all add: js_def code_unit_def LF_def lineTerminator_def typeTags_def alphanumeric_def)
qed

text \<open>
  The message \<^verbatim>\<open>feat: add x\<close>, empty line, \<^verbatim>\<open>___\<close>, empty line, \<^verbatim>\<open>closes 12\<close>
  has the full conventional shape, with a third line of word characters (alphanumeric or
  underscore) and a footer with letters and digits; the linter does not return
  \<^verbatim>\<open>undefined\<close> for it, but the error of line 3.
\<close>

theorem underscore_shape_counterexample:
  "split LF (js ''feat: add x'' @ LF # LF # js ''___'' @ LF # LF # js ''closes 12'') =
     [js ''feat'' @ js '': '' @ js ''add x'', [], js ''___'', [], js ''closes 12''] \<and>
   ''feat'' \<in> set typeTags \<and>
   list_all wordChar (js ''___'') \<and>
   list_ex alphanumeric (js ''closes 12'') \<and>
   commitLint \<lparr>sha = Str (js ''abc''),
       msg = Str (js ''feat: add x'' @ LF # LF # js ''___'' @ LF # LF # js ''closes 12'')\<rparr> \<noteq> None \<and>
   commitLint \<lparr>sha = Str (js ''abc''),
       msg = Str (js ''feat: add x'' @ LF # LF # js ''___'' @ LF # LF # js ''closes 12'')\<rparr> =
     Some (errorMessage (Str (js ''abc'')) @ js '' Line #3 should be `<body>` (with text).'')"
  by (simp add: commitLint_def eval_defs typeTags_def alphanumeric_def)

text \<open>
  C4. A message of one line (no line feed) that is a tag of the fixed set, then
  optionally a scope of at least one character in parentheses, then \<^verbatim>\<open>: \<close> and a
  subject of at least one character, is valid: with one line, none of the tests on the
  lines applies. Characters are again those of \<^verbatim>\<open>.\<close>. The witness has
  \<^verbatim>\<open>feat: add x\<close> and \<^verbatim>\<open>fix(core): bug\<close>.
\<close>

theorem header_only_is_valid:
  assumes "msg c = Str m" and "m = js t @ scope @ js '': '' @ subject"
    and "LF \<notin> set m"
    and "t \<in> set typeTags"
    and "scope = [] \<or>
      (scope = js ''('' @ sc @ js '')'' \<and> sc \<noteq> [] \<and> (\<forall>ch\<in>set sc. \<not> lineTerminator ch))"
    and "subject \<noteq> []" and "\<not> lineTerminator (hd subject)"
  shows "commitLint c = None"
proof -
  have "test headerRegex (js t @ scope @ js '': '' @ subject @ [])"
    using assms(4-7) by (rule header_form_passes)
  then have "test headerRegex m" using assms(2) by simp
  moreover have "split LF m = [m]" using assms(3) by (rule split_no_delim)
  ultimately show ?thesis using assms(1) by (simp add: commitLint_Str)
qed

theorem header_only_is_valid_witness:
  "commitLint \<lparr>sha = Str (js ''abc''), msg = Str (js ''feat: add x'')\<rparr> = None \<and>
   commitLint \<lparr>sha = Str (js ''abc''), msg = Str (js ''fix(core): bug'')\<rparr> = None"
proof
  show "commitLint \<lparr>sha = Str (js ''abc''), msg = Str (js ''feat: add x'')\<rparr> = None"
    by (rule header_only_is_valid [where t = "''feat''" and scope = "[]"
          and subject = "js ''add x''" and m = "js ''feat: add x''"])
      (simp_all add: js_def code_unit_def LF_def lineTerminator_def typeTags_def)
  show "commitLint \<lparr>sha = Str (js ''abc''), msg = Str (js ''fix(core): bug'')\<rparr> = None"
    by (rule header_only_is_valid [where t = "''fix''" and scope = "js ''(core)''"
          and sc = "js ''core''" and subject = "js ''bug''" and m = "js ''fix(core): bug''"])
      (simp_all add: js_def code_unit_def LF_def lineTerminator_def typeTags_def)
qed

text \<open>
  C5. A message that is not empty and whose leading type tag is not, letter for letter,
  one of the fixed tags gets the error of line 1. This holds for a message of any number
  of lines, so for those of one line. The witness has \<^verbatim>\<open>unknown: thing\<close>,
  \<^verbatim>\<open>Feat: x\<close> and \<^verbatim>\<open>feats: x\<close>.
\<close>

theorem unknown_tag_is_invalid:
  assumes "msg c = Str m" and "m \<noteq> []" and "leadingTag m \<notin> set (map js typeTags)"
  shows "commitLint c =
    Some (errorMessage (sha c) @ js '' Line #1 should be `<type>(<scope>): <subject>` or '' @
      js ''`<type>: <subject>`.'')"
proof -
  have "\<not> test headerRegex m" using assms(3) leadingTag_of_header by blast
  then show ?thesis using assms(1,2) by (simp add: commitLint_def)
qed

theorem unknown_tag_is_invalid_witness:
  "commitLint \<lparr>sha = Str (js ''abc''), msg = Str (js ''unknown: thing'')\<rparr> =
     Some (errorMessage (Str (js ''abc'')) @
       js '' Line #1 should be `<type>(<scope>): <subject>` or '' @ js ''`<type>: <subject>`.'') \<and>
   commitLint \<lparr>sha = Str (js ''abc''), msg = Str (js ''Feat: x'')\<rparr> =
     Some (errorMessage (Str (js ''abc'')) @
       js '' Line #1 should be `<type>(<scope>): <subject>` or '' @ js ''`<type>: <subject>`.'') \<and>
   commitLint \<lparr>sha = Str (js ''abc''), msg = Str (js ''feats: x'')\<rparr> =
     Some (errorMessage (Str (js ''abc'')) @
       js '' Line #1 should be `<type>(<scope>): <subject>` or '' @ js ''`<type>: <subject>`.'')"
  using unknown_tag_is_invalid [of "\<lparr>sha = Str (js ''abc''), msg = Str (js ''unknown: thing'')\<rparr>"
      "js ''unknown: thing''"]
    unknown_tag_is_invalid [of "\<lparr>sha = Str (js ''abc''), msg = Str (js ''Feat: x'')\<rparr>"
      "js ''Feat: x''"]
    unknown_tag_is_invalid [of "\<lparr>sha = Str (js ''abc''), msg = Str (js ''feats: x'')\<rparr>"
      "js ''feats: x''"]
  by (simp add: leadingTag_def typeTags_def js_def code_unit_def)

text \<open>
  C6. A message that passes the header test, has more than one line and whose second
  line is not the empty string gets the error of line 2. The witness is the two-line
  message \<^verbatim>\<open>feat: add x\<close>, \<^verbatim>\<open>some text\<close>.
\<close>

theorem second_line_not_blank:
  "msg c = Str m \<Longrightarrow> test headerRegex m \<Longrightarrow> length (split LF m) > 1 \<Longrightarrow>
   split LF m ! 1 \<noteq> [] \<Longrightarrow>
   commitLint c = Some (errorMessage (sha c) @ js '' Line #2 should be `<blank line>`.'')"
  by (simp add: commitLint_Str)

theorem second_line_not_blank_witness:
  "commitLint \<lparr>sha = Str (js ''abc''),
     msg = Str (js ''feat: add x'' @ LF # js ''some text'')\<rparr> =
   Some (errorMessage (Str (js ''abc'')) @ js '' Line #2 should be `<blank line>`.'')"
  using second_line_not_blank [of "\<lparr>sha = Str (js ''abc''),
    msg = Str (js ''feat: add x'' @ LF # js ''some text'')\<rparr>"
    "js ''feat: add x'' @ LF # js ''some text''"]
  by (simp add: eval_defs)

text \<open>
  C7. A commit whose message is \<^verbatim>\<open>undefined\<close>, \<^verbatim>\<open>null\<close> or the empty string gets
  the error \<^verbatim>\<open>Commit <sha> has no commit message\<close>, whatever its identifier is; no
  other test is made before this one.
\<close>

theorem no_commit_message:
  "msg c = Undefined \<or> msg c = Null \<or> msg c = Str [] \<Longrightarrow>
   commitLint c = Some (js ''Commit '' @ toString (sha c) @ js '' has no commit message'')"
  by (auto simp: commitLint_def commitIdentificator_def)

theorem no_commit_message_witness:
  "commitLint \<lparr>sha = Undefined, msg = Null\<rparr> =
     Some (js ''Commit '' @ js ''undefined'' @ js '' has no commit message'')"
  using no_commit_message [of "\<lparr>sha = Undefined, msg = Null\<rparr>"] by simp

text \<open>
  C8. From any list of commits and any failures reported before, the failures reported
  after are the earlier ones followed by the errors of the linter on the commits, in the
  order of the list, one for each commit that has an error and none for a valid commit.
  The result recorded for a commit is that of the linter on this commit alone, whatever
  stands before or after it in the list.
\<close>

theorem failures_are_the_errors:
  "reportCommitErrors commits failures =
     failures @ map the (filter (\<lambda>e. e \<noteq> None) (map commitLint commits)) \<and>
   (\<forall>before c after. commits = before @ c # after \<longrightarrow>
      commitErrors commits ! length before = commitLint c)"
  using report_eq by (auto simp: commitErrors_def nth_append)

theorem failures_are_the_errors_witness:
  "reportCommitErrors
     [\<lparr>sha = Str (js ''a1''), msg = Str (js ''feat: add x'')\<rparr>,
      \<lparr>sha = Str (js ''b2''), msg = Str (js ''feat: add x'' @ LF # js ''some text'')\<rparr>,
      \<lparr>sha = Str (js ''c3''), msg = Str []\<rparr>] [] =
     [errorMessage (Str (js ''b2'')) @ js '' Line #2 should be `<blank line>`.'',
      js ''Commit c3 has no commit message''] \<and>
   commitErrors
     [\<lparr>sha = Str (js ''a1''), msg = Str (js ''feat: add x'')\<rparr>,
      \<lparr>sha = Str (js ''b2''), msg = Str (js ''feat: add x'' @ LF # js ''some text'')\<rparr>,
      \<lparr>sha = Str (js ''c3''), msg = Str []\<rparr>] ! 1 =
     commitLint \<lparr>sha = Str (js ''b2''), msg = Str (js ''feat: add x'' @ LF # js ''some text'')\<rparr>"
proof -
  let ?a = "\<lparr>sha = Str (js ''a1''), msg = Str (js ''feat: add x'')\<rparr>"
  let ?b = "\<lparr>sha = Str (js ''b2''), msg = Str (js ''feat: add x'' @ LF # js ''some text'')\<rparr>"
  let ?c = "\<lparr>sha = Str (js ''c3''), msg = Str []\<rparr>"
  have a: "commitLint ?a = None"
    by (simp add: commitLint_def eval_defs)
  have b: "commitLint ?b =
      Some (errorMessage (Str (js ''b2'')) @ js '' Line #2 should be `<blank line>`.'')"
    by (simp add: commitLint_def eval_defs)
  have c: "commitLint ?c = Some (js ''Commit c3 has no commit message'')"
    by (simp add: commitLint_def commitIdentificator_def js_def)
  have d: "[?a, ?b, ?c] = [?a] @ ?b # [?c]"
    by simp
  from failures_are_the_errors [of "[?a, ?b, ?c]" "[]"]
  have r: "reportCommitErrors [?a, ?b, ?c] [] =
      map the (filter (\<lambda>e. e \<noteq> None) (map commitLint [?a, ?b, ?c]))"
    and e: "\<forall>before c after. [?a, ?b, ?c] = before @ c # after \<longrightarrow>
      commitErrors [?a, ?b, ?c] ! length before = commitLint c"
    by simp_all
  from e d have "commitErrors [?a, ?b, ?c] ! length [?a] = commitLint ?b"
    by blast
  then have p: "commitErrors [?a, ?b, ?c] ! 1 = commitLint ?b" by simp
  have q: "reportCommitErrors [?a, ?b, ?c] [] =
      [errorMessage (Str (js ''b2'')) @ js '' Line #2 should be `<blank line>`.'',
       js ''Commit c3 has no commit message'']"
    unfolding r by (simp add: a b c)
  show ?thesis by (intro conjI) (fact q p)+
qed

text \<open>
  C10. When the linter comes to the test of the footer and it fails (the message passes
  the header test, has more than four lines, an empty second line, a third line with a
  letter or a digit, an empty fourth line, and a fifth line with no letter and no digit),
  the error says \<^verbatim>\<open>Line #3\<close>, the line number of the error of the body, and not
  line 5.
\<close>

theorem footer_error_names_line_3:
  "msg c = Str m \<Longrightarrow> test headerRegex m \<Longrightarrow> length (split LF m) > 4 \<Longrightarrow>
   split LF m ! 1 = [] \<Longrightarrow> (\<exists>ch\<in>set (split LF m ! 2). alphanumeric ch) \<Longrightarrow>
   split LF m ! 3 = [] \<Longrightarrow> \<not> (\<exists>ch\<in>set (split LF m ! 4). alphanumeric ch) \<Longrightarrow>
   commitLint c =
     Some (errorMessage (sha c) @ js '' Line #3'' @ js '' should be `<footer>` with text.'')"
  by (simp add: commitLint_Str hasTextRegex_iff js_def)

theorem footer_error_names_line_3_witness:
  "commitLint \<lparr>sha = Str (js ''abc''),
     msg = Str (js ''fix(core): bug'' @ LF # LF # js ''fixes an issue'' @ LF # LF # js ''---'')\<rparr> =
   Some (errorMessage (Str (js ''abc'')) @ js '' Line #3'' @ js '' should be `<footer>` with text.'')"
  using footer_error_names_line_3 [of "\<lparr>sha = Str (js ''abc''),
     msg = Str (js ''fix(core): bug'' @ LF # LF # js ''fixes an issue'' @ LF # LF # js ''---'')\<rparr>"
     "js ''fix(core): bug'' @ LF # LF # js ''fixes an issue'' @ LF # LF # js ''---''"]
  by (simp add: eval_defs alphanumeric_def)

end
